theory Spec2Isabelle
  imports Complex_Main "HOL-Library.AList" "HOL-Library.Char_ord" "HOL-Library.List_Lexorder"
begin

section \<open>Python values\<close>

text \<open>
  A Python float is a finite number, an infinity or NaN. Every finite double is a real
  number and Python compares floats and integers by their exact values, so \<open>Fin r\<close>
  carries the value.
\<close>

datatype pyfloat = Fin real | PosInf | NegInf | NaN

text \<open>\<open>a < b\<close> and \<open>a <= b\<close> on floats: every comparison with NaN is false.\<close>

fun flt_lt :: "pyfloat \<Rightarrow> pyfloat \<Rightarrow> bool" where
  "flt_lt NaN b = False"
| "flt_lt a NaN = False"
| "flt_lt (Fin a) (Fin b) = (a < b)"
| "flt_lt a NegInf = False"
| "flt_lt NegInf b = True"
| "flt_lt PosInf b = False"
| "flt_lt (Fin a) PosInf = True"

fun flt_le :: "pyfloat \<Rightarrow> pyfloat \<Rightarrow> bool" where
  "flt_le NaN b = False"
| "flt_le a NaN = False"
| "flt_le (Fin a) (Fin b) = (a \<le> b)"
| "flt_le NegInf b = True"
| "flt_le a NegInf = False"
| "flt_le a PosInf = True"
| "flt_le PosInf b = False"

text \<open>
  The values a configuration holds: what argparse produces for \<open>type=str\<close>,
  \<open>type=int\<close> and \<open>type=float\<close> options and their defaults, and the scalars
  \<open>json.load\<close> produces (null, booleans, numbers, strings). A JSON array or object as
  the value of an option is outside this model.
\<close>

datatype pyval = PNone | PBool bool | PInt int | PFloat pyfloat | PStr string

datatype message = Text string | Fmt string pyval

datatype pyerr =
    SystemExit
  | AssertionError message
  | TypeError
  | KeyError pyval
  | AttributeError
  | JSONDecodeError
  | OSError
  | ZeroDivisionError

text \<open>Sequencing of computations that may raise: the first error is the result.\<close>

definition bind :: "'e + 'a \<Rightarrow> ('a \<Rightarrow> 'e + 'b) \<Rightarrow> 'e + 'b" where
  "bind x f = (case x of Inl e \<Rightarrow> Inl e | Inr a \<Rightarrow> f a)"

text \<open>The numeric value of a bool, int or float; None for the other types.\<close>

fun as_float :: "pyval \<Rightarrow> pyfloat option" where
  "as_float (PBool b) = Some (Fin (if b then 1 else 0))"
| "as_float (PInt i) = Some (Fin (of_int i))"
| "as_float (PFloat f) = Some f"
| "as_float v = None"

text \<open>
  \<open>a <= b\<close> and \<open>a > b\<close>: numbers compare by value, two strings lexicographically by
  code point, and every other pairing raises TypeError.
\<close>

fun py_le :: "pyval \<Rightarrow> pyval \<Rightarrow> pyerr + bool" where
  "py_le (PStr a) (PStr b) = Inr (a \<le> b)"
| "py_le a b =
     (case (as_float a, as_float b) of
        (Some x, Some y) \<Rightarrow> Inr (flt_le x y)
      | _ \<Rightarrow> Inl TypeError)"

fun py_gt :: "pyval \<Rightarrow> pyval \<Rightarrow> pyerr + bool" where
  "py_gt (PStr a) (PStr b) = Inr (b < a)"
| "py_gt a b =
     (case (as_float a, as_float b) of
        (Some x, Some y) \<Rightarrow> Inr (flt_lt y x)
      | _ \<Rightarrow> Inl TypeError)"

text \<open>Truth value of a value in a condition (\<open>if args.config:\<close>).\<close>

fun truthy :: "pyval \<Rightarrow> bool" where
  "truthy PNone = False"
| "truthy (PBool b) = b"
| "truthy (PInt i) = (i \<noteq> 0)"
| "truthy (PFloat f) = (f \<noteq> Fin 0)"
| "truthy (PStr s) = (s \<noteq> [])"

text \<open>\<open>v in d\<close> for a dict \<open>d\<close> whose keys are the strings \<open>names\<close>.\<close>

fun py_in :: "pyval \<Rightarrow> string list \<Rightarrow> bool" where
  "py_in (PStr s) names = (s \<in> set names)"
| "py_in v names = False"

section \<open>Dictionaries\<close>

text \<open>
  A dict is an association list with distinct keys in insertion order.
  \<open>AList.update\<close> overwrites the value of a key in place and appends a new key, as
  \<open>d[k] = v\<close> does.
\<close>

type_synonym config = "(string \<times> pyval) list"

definition getitem :: "config \<Rightarrow> string \<Rightarrow> pyerr + pyval" where
  "getitem d k = (case map_of d k of None \<Rightarrow> Inl (KeyError (PStr k)) | Some v \<Rightarrow> Inr v)"

definition dict_update :: "(string \<times> 'v) list \<Rightarrow> (string \<times> 'v) list \<Rightarrow> (string \<times> 'v) list" where
  "dict_update d other = foldl (\<lambda>acc (k, v). AList.update k v acc) d other"

section \<open>get_config\<close>

datatype model_class = GRUModel | GRUNodeModel | GRUGraphModel

definition MODELS :: "(string \<times> model_class) list" where
  "MODELS = [(''gru'', GRUModel), (''gru_node'', GRUNodeModel), (''gru_graph'', GRUGraphModel)]"

text \<open>
  The module \<open>constants\<close> is not part of the sources; what main.py reads from it is a
  parameter: the keys of the three name-to-class dicts and the checkpoint file name.
\<close>

record constants =
  OPTIMIZERS :: "string list"
  LOSSES :: "string list"
  GNN_LAYERS :: "string list"
  PARAM_FILE_NAME :: string

datatype argtype = TStr | TInt | TFloat

text \<open>
  The options of the parser in the order of their \<open>add_argument\<close> calls: destination,
  type and default. The default of \<open>--lr\<close> is the double nearest to 1e-3.
\<close>

definition arguments :: "(string \<times> argtype \<times> pyval) list" where
  "arguments =
    [(''config'', TStr, PNone),
     (''model'', TStr, PStr ''gru_graph''),
     (''dataset'', TStr, PStr ''la_node_0.25''),
     (''seed'', TInt, PInt 42),
     (''optimizer'', TStr, PStr ''adam''),
     (''init_points'', TInt, PInt 5),
     (''test'', TInt, PInt 0),
     (''gru_layers'', TInt, PInt 1),
     (''decay_type'', TStr, PStr ''dynamic''),
     (''time_input'', TInt, PInt 1),
     (''mask_input'', TInt, PInt 0),
     (''hidden_dim'', TInt, PInt 32),
     (''n_fc'', TInt, PInt 2),
     (''pred_gnn'', TInt, PInt 1),
     (''gru_gnn'', TInt, PInt 1),
     (''gnn_type'', TStr, PStr ''graphconv''),
     (''node_params'', TInt, PInt 1),
     (''epochs'', TInt, PInt 10),
     (''val_interval'', TInt, PInt 1),
     (''patience'', TInt, PInt 10),
     (''loss'', TStr, PStr ''mse''),
     (''lr'', TFloat, PFloat (Fin (1152921504606847 / 1152921504606846976))),
     (''l2_reg'', TFloat, PFloat (Fin 0)),
     (''batch_size'', TInt, PInt 32),
     (''learn_init_state'', TInt, PInt 1),
     (''state_updates'', TStr, PStr ''obs''),
     (''plot_pred'', TInt, PInt 3),
     (''max_nodes_plot'', TInt, PInt 5),
     (''save_pdf'', TInt, PInt 0)]"

definition option_names :: "string list" where
  "option_names = map fst arguments"

fun has_type :: "argtype \<Rightarrow> pyval \<Rightarrow> bool" where
  "has_type TStr (PStr s) = True"
| "has_type TInt (PInt i) = True"
| "has_type TFloat (PFloat f) = True"
| "has_type t v = False"

text \<open>
  \<open>parser.parse_args()\<close> followed by \<open>vars(args)\<close>. The command line is given as
  argparse sees it after splitting and conversion: one pair of destination and converted
  value for each option occurrence, in order. argparse exits for an option it does not
  define and for a value its \<open>type\<close> does not convert; the last occurrence of an option
  wins and an option that does not occur keeps its default.
\<close>

definition parse_args :: "(string \<times> pyval) list \<Rightarrow> pyerr + config" where
  "parse_args argv =
     (if list_all (\<lambda>(k, v). case map_of arguments k of
                                None \<Rightarrow> False
                              | Some (t, d) \<Rightarrow> has_type t v) argv
      then Inr (map (\<lambda>(k, t, d). (k, case map_of (rev argv) k of
                                         None \<Rightarrow> d
                                       | Some v \<Rightarrow> v)) arguments)
      else Inl SystemExit)"

text \<open>
  What is behind a path: nothing, something \<open>open\<close> cannot read, text that is not
  JSON, a JSON object (its pairs in the order of the text; \<open>json.load\<close> keeps the last
  value of a repeated key), or another JSON value.
\<close>

datatype file_content = Unreadable | Malformed | JsonObject "(string \<times> pyval) list" | JsonOther

type_synonym filesystem = "string \<Rightarrow> file_content option"

text \<open>\<open>set(config_from_file.keys()).difference(set(config.keys()))\<close>, in an order
  of iteration (Python leaves the order of a set open).\<close>

definition unknown_options :: "(string \<times> pyval) list \<Rightarrow> config \<Rightarrow> string list" where
  "unknown_options config_from_file config =
     filter (\<lambda>k. k \<notin> set (map fst config)) (remdups (map fst config_from_file))"

fun join_lines :: "string list \<Rightarrow> string" where
  "join_lines [] = []"
| "join_lines [l] = l"
| "join_lines (l # ls) = l @ [CHR 0x0A] @ join_lines ls"

definition unknown_error :: "string list \<Rightarrow> string" where
  "unknown_error opts =
     join_lines (map (\<lambda>opt. ''Unknown option in config file: '' @ opt) opts)"

text \<open>Lines 97 to 110: the values of the configuration file replace those of the
  command line.\<close>

definition read_config_file :: "filesystem \<Rightarrow> config \<Rightarrow> pyerr + config" where
  "read_config_file fs config =
     bind (getitem config ''config'') (\<lambda>path.
       if \<not> truthy path then Inr config
       else (case path of
               PStr p \<Rightarrow>
                 (case fs p of
                    None \<Rightarrow> Inl (AssertionError (Text (''No config file: '' @ p)))
                  | Some Unreadable \<Rightarrow> Inl OSError
                  | Some Malformed \<Rightarrow> Inl JSONDecodeError
                  | Some JsonOther \<Rightarrow> Inl AttributeError
                  | Some (JsonObject config_from_file) \<Rightarrow>
                      (if unknown_options config_from_file config \<noteq> []
                       then Inl (AssertionError
                                  (Text (unknown_error (unknown_options config_from_file config))))
                       else Inr (dict_update config config_from_file)))
             | _ \<Rightarrow> Inl TypeError))"

text \<open>Lines 113 to 118: the four names are keys of their dicts.\<close>

definition check_names :: "constants \<Rightarrow> config \<Rightarrow> pyerr + unit" where
  "check_names C config =
     bind (getitem config ''model'') (\<lambda>model.
       if \<not> py_in model (map fst MODELS)
       then Inl (AssertionError (Fmt ''Unknown model: '' model))
       else bind (getitem config ''optimizer'') (\<lambda>optimizer.
         if \<not> py_in optimizer (OPTIMIZERS C)
         then Inl (AssertionError (Fmt ''Unknown optimizer: '' optimizer))
         else bind (getitem config ''loss'') (\<lambda>loss.
           if \<not> py_in loss (LOSSES C)
           then Inl (AssertionError (Fmt ''Unknown loss: '' loss))
           else bind (getitem config ''gnn_type'') (\<lambda>gnn_type.
             if \<not> py_in gnn_type (GNN_LAYERS C)
             then Inl (AssertionError (Fmt ''Unknown gnn_type: '' gnn_type))
             else Inr ()))))"

text \<open>Lines 119 to 121: the two numeric bounds.\<close>

definition check_bounds :: "config \<Rightarrow> pyerr + unit" where
  "check_bounds config =
     bind (getitem config ''init_points'') (\<lambda>init_points.
       bind (py_gt init_points (PInt 0)) (\<lambda>positive.
         if \<not> positive
         then Inl (AssertionError (Text ''Need to have positive number of init points''))
         else bind (getitem config ''plot_pred'') (\<lambda>plot_pred.
           bind (getitem config ''batch_size'') (\<lambda>batch_size.
             bind (py_le plot_pred batch_size) (\<lambda>fits.
               if \<not> fits
               then Inl (AssertionError (Text ''Can not make more plots than batch size''))
               else Inr ())))))"

definition get_config :: "constants \<Rightarrow> filesystem \<Rightarrow> (string \<times> pyval) list \<Rightarrow> pyerr + config" where
  "get_config C fs argv =
     bind (parse_args argv) (\<lambda>args.
       bind (read_config_file fs args) (\<lambda>config.
         bind (check_names C config) (\<lambda>_.
           bind (check_bounds config) (\<lambda>_. Inr config))))"

section \<open>main\<close>

text \<open>
  The arithmetic of the training loop on configuration values. Integers are unbounded;
  a quotient is taken exactly, where Python rounds it to the nearest double.
\<close>








text \<open>What a run does to the outside, in order.\<close>

datatype 'p event =
    Construct model_class
  | PrintEpoch int pyfloat pyfloat
  | WandbLog int "(string \<times> pyfloat) list"
  | PrintStop
  | TorchSave "'p option" string
  | Savefig string
  | WandbLogImage nat
  | SummarySet string pyfloat
  | SummaryDecay nat
  | SummaryUpdate "(string \<times> pyfloat) list"
  | PrintTestHeader
  | PrintTest string pyfloat

text \<open>
  A computation yields the events it performed and then a value or the exception that
  ended it.
\<close>

type_synonym ('p, 'a) run = "'p event list \<times> (pyerr + 'a)"

definition ret :: "'a \<Rightarrow> ('p, 'a) run" where
  "ret a = ([], Inr a)"

definition lift :: "pyerr + 'a \<Rightarrow> ('p, 'a) run" where
  "lift x = ([], x)"

definition emit :: "'p event list \<Rightarrow> ('p, unit) run" where
  "emit evs = (evs, Inr ())"

definition seq :: "('p, 'a) run \<Rightarrow> ('a \<Rightarrow> ('p, 'b) run) \<Rightarrow> ('p, 'b) run" where
  "seq m f =
     (case m of
        (evs, Inl e) \<Rightarrow> (evs, Inl e)
      | (evs, Inr a) \<Rightarrow> (case f a of (evs', r) \<Rightarrow> (evs @ evs', r)))"

text \<open>The variables of the training loop (lines 170 to 173, and the model).\<close>

record ('m, 'p) train_state =
  model :: 'm
  best_val_loss :: pyfloat
  best_val_metrics :: "(string \<times> pyfloat) list option"
  best_val_epoch :: int
  best_params :: "'p option"















section \<open>Reading a run\<close>



text \<open>
  The validations of a run as it logged them with \<open>wandb.log\<close>: the epoch and its
  \<open>val_mse\<close>, oldest first.
\<close>

fun logged :: "'p event list \<Rightarrow> (int \<times> pyfloat) list" where
  "logged [] = []"
| "logged (WandbLog epoch_i log_metrics # evs) =
     (case map_of log_metrics ''val_mse'' of
        None \<Rightarrow> logged evs
      | Some v \<Rightarrow> (epoch_i, v) # logged evs)"
| "logged (ev # evs) = logged evs"







section \<open>Concrete inputs\<close>

text \<open>Inputs on which the theorems below are run.\<close>

definition defaults :: config where
  "defaults = map (\<lambda>(k, t, d). (k, d)) arguments"

definition demo_constants :: constants where
  "demo_constants =
     \<lparr>OPTIMIZERS = [''adam'', ''rmsprop''], LOSSES = [''mse'', ''mae''],
      GNN_LAYERS = [''graphconv'', ''gcn''], PARAM_FILE_NAME = ''parameters.pt''\<rparr>"

definition demo_fs :: filesystem where
  "demo_fs p =
     (if p = ''run.json'' then Some (JsonObject [(''epochs'', PInt 3), (''model'', PStr ''gru'')])
      else if p = ''typo.json'' then Some (JsonObject [(''epoch'', PInt 3), (''model'', PStr ''gru'')])
      else if p = ''bounds.json'' then Some (JsonObject [(''init_points'', PInt 0), (''plot_pred'', PInt 64)])
      else None)"




section \<open>Properties of get_config\<close>

lemmas demo_defs = defaults_def demo_constants_def demo_fs_def arguments_def option_names_def
  parse_args_def get_config_def read_config_file_def getitem_def unknown_options_def
  unknown_error_def dict_update_def check_names_def check_bounds_def MODELS_def

lemma bind_Inr_iff: "bind x f = Inr y \<longleftrightarrow> (\<exists>a. x = Inr a \<and> f a = Inr y)"
  by (cases x) (simp_all add: bind_def)

lemma bind_Inr [simp]: "bind (Inr a) f = f a"
  by (simp add: bind_def)

lemma bind_Inl [simp]: "bind (Inl e) f = Inl e"
  by (simp add: bind_def)

lemma map_of_dict_update:
  "map_of (dict_update d other) k =
     (case map_of (rev other) k of Some v \<Rightarrow> Some v | None \<Rightarrow> map_of d k)"
proof (induction other arbitrary: d)
  case Nil
  show ?case by (simp add: dict_update_def)
next
  case (Cons kv other)
  obtain k' v' where kv: "kv = (k', v')" by (cases kv)
  have "dict_update d (kv # other) = dict_update (AList.update k' v' d) other"
    by (simp add: dict_update_def kv)
  then show ?case
    using Cons.IH [of "AList.update k' v' d"]
    by (simp add: kv update_conv' map_add_def split: option.splits)
qed

lemma keys_dict_update:
  "set (map fst other) \<subseteq> set (map fst d) \<Longrightarrow> map fst (dict_update d other) = map fst d"
proof (induction other arbitrary: d)
  case Nil
  show ?case by (simp add: dict_update_def)
next
  case (Cons kv other)
  obtain k' v' where kv: "kv = (k', v')" by (cases kv)
  have step: "dict_update d (kv # other) = dict_update (AList.update k' v' d) other"
    by (simp add: dict_update_def kv)
  have keys: "map fst (AList.update k' v' d) = map fst d"
    using Cons.prems by (simp add: kv update_keys)
  show ?case
    using Cons.IH [of "AList.update k' v' d"] Cons.prems by (simp add: step keys)
qed

lemma map_of_defaults:
  "map_of (map (\<lambda>(k, t, d). (k, g k d)) xs) k = map_option (\<lambda>(t, d). g k d) (map_of xs k)"
  by (induction xs) auto

lemma parse_args_keys: "parse_args argv = Inr args \<Longrightarrow> map fst args = option_names"
  by (auto simp: parse_args_def option_names_def split: if_splits)

lemma parse_args_lookup:
  "parse_args argv = Inr args \<Longrightarrow>
   map_of args k =
     (case map_of arguments k of
        None \<Rightarrow> None
      | Some (t, d) \<Rightarrow> Some (case map_of (rev argv) k of None \<Rightarrow> d | Some v \<Rightarrow> v))"
  by (auto simp: parse_args_def map_of_defaults split: if_splits option.splits)

lemma unknown_options_set:
  "set (unknown_options config_from_file config) = set (map fst config_from_file) - set (map fst config)"
  by (auto simp: unknown_options_def)

lemma unknown_options_distinct: "distinct (unknown_options config_from_file config)"
  by (simp add: unknown_options_def)


lemma flt_le_not_lt: "flt_le x y \<Longrightarrow> \<not> flt_lt y x"
  by (cases x; cases y) auto

lemma flt_lt_not_le: "flt_lt y x \<Longrightarrow> \<not> flt_le x y"
  by (cases x; cases y) auto

lemma py_le_not_gt: "py_le a b = Inr True \<Longrightarrow> py_gt a b \<noteq> Inr True"
  by (cases a; cases b) (auto dest: flt_le_not_lt)

lemma py_gt_not_le: "py_gt a b = Inr True \<Longrightarrow> py_le a b \<noteq> Inr True"
  by (cases a; cases b) (auto dest: flt_lt_not_le)

lemma py_in_iff: "py_in v names \<longleftrightarrow> (\<exists>s. v = PStr s \<and> s \<in> set names)"
  by (cases v) auto

lemma getitem_Inr_iff: "getitem d k = Inr v \<longleftrightarrow> map_of d k = Some v"
  by (simp add: getitem_def split: option.splits)

lemma bind_getitem:
  "bind (getitem d k) f = (case map_of d k of None \<Rightarrow> Inl (KeyError (PStr k)) | Some v \<Rightarrow> f v)"
  by (simp add: getitem_def split: option.splits)

lemma check_names_Inr_iff:
  "check_names C config = Inr u \<longleftrightarrow>
     (\<exists>m. map_of config ''model'' = Some (PStr m) \<and> m \<in> set (map fst MODELS)) \<and>
     (\<exists>opt. map_of config ''optimizer'' = Some (PStr opt) \<and> opt \<in> set (OPTIMIZERS C)) \<and>
     (\<exists>l. map_of config ''loss'' = Some (PStr l) \<and> l \<in> set (LOSSES C)) \<and>
     (\<exists>g. map_of config ''gnn_type'' = Some (PStr g) \<and> g \<in> set (GNN_LAYERS C))"
  unfolding check_names_def bind_getitem
  by (auto simp: py_in_iff split: option.splits)

lemma check_bounds_Inr_iff:
  "check_bounds config = Inr u \<longleftrightarrow>
     (\<exists>ip pp bs. map_of config ''init_points'' = Some ip \<and> py_gt ip (PInt 0) = Inr True \<and>
        map_of config ''plot_pred'' = Some pp \<and> map_of config ''batch_size'' = Some bs \<and>
        py_le pp bs = Inr True)"
  unfolding check_bounds_def bind_getitem
  by (auto simp: bind_def split: option.splits sum.splits)

lemma get_config_Inr_iff:
  "get_config C fs argv = Inr config \<longleftrightarrow>
     (\<exists>args. parse_args argv = Inr args \<and> read_config_file fs args = Inr config \<and>
        check_names C config = Inr () \<and> check_bounds config = Inr ())"
  unfolding get_config_def by (auto simp: bind_Inr_iff)

lemma isl_iff_not_Inr: "isl x \<longleftrightarrow> (\<forall>y. x \<noteq> Inr y)"
  by (cases x) auto

text \<open>
  Claim C3. Once the command line is parsed, the configuration file is merged and the two
  numeric bounds hold, \<open>get_config\<close> raises exactly when the model is not one of
  \<open>gru\<close>, \<open>gru_node\<close>, \<open>gru_graph\<close>, or the optimizer, the loss or the GNN type is
  not a key of its dict in \<open>constants\<close>.
\<close>

theorem get_config_rejects_unknown_names:
  assumes "parse_args argv = Inr args"
    and "read_config_file fs args = Inr config"
    and "check_bounds config = Inr ()"
  shows "isl (get_config C fs argv) \<longleftrightarrow>
           (map_of config ''model'' \<notin> (\<lambda>s. Some (PStr s)) ` {''gru'', ''gru_node'', ''gru_graph''}
          \<or> map_of config ''optimizer'' \<notin> (\<lambda>s. Some (PStr s)) ` set (OPTIMIZERS C)
          \<or> map_of config ''loss'' \<notin> (\<lambda>s. Some (PStr s)) ` set (LOSSES C)
          \<or> map_of config ''gnn_type'' \<notin> (\<lambda>s. Some (PStr s)) ` set (GNN_LAYERS C))"
proof -
  have "isl (get_config C fs argv) \<longleftrightarrow> check_names C config \<noteq> Inr ()"
    using assms by (auto simp: isl_iff_not_Inr get_config_Inr_iff)
  also have "\<dots> \<longleftrightarrow>
           (map_of config ''model'' \<notin> (\<lambda>s. Some (PStr s)) ` {''gru'', ''gru_node'', ''gru_graph''}
          \<or> map_of config ''optimizer'' \<notin> (\<lambda>s. Some (PStr s)) ` set (OPTIMIZERS C)
          \<or> map_of config ''loss'' \<notin> (\<lambda>s. Some (PStr s)) ` set (LOSSES C)
          \<or> map_of config ''gnn_type'' \<notin> (\<lambda>s. Some (PStr s)) ` set (GNN_LAYERS C))"
    unfolding check_names_Inr_iff by (auto simp: MODELS_def image_iff)
  finally show ?thesis .
qed

lemma read_config_file_object:
  assumes "parse_args argv = Inr args"
    and "map_of (rev argv) ''config'' = Some (PStr p)" and "p \<noteq> []"
    and "fs p = Some (JsonObject config_from_file)"
  shows "read_config_file fs args =
      (if unknown_options config_from_file args \<noteq> []
       then Inl (AssertionError (Text (unknown_error (unknown_options config_from_file args))))
       else Inr (dict_update args config_from_file))"
proof -
  have path: "getitem args ''config'' = Inr (PStr p)"
    using assms(1,2) by (simp add: getitem_Inr_iff parse_args_lookup arguments_def)
  show ?thesis
    unfolding read_config_file_def using path assms(3,4) by simp
qed

lemma unknown_options_parse_args:
  assumes "parse_args argv = Inr args"
  shows "set (unknown_options config_from_file args) = set (map fst config_from_file) - set option_names"
  using assms by (simp add: unknown_options_set parse_args_keys)

text \<open>
  Claim C4. For a configuration file passed with \<open>--config\<close> that holds a JSON object:
  when all its keys are option names the file is merged and \<open>get_config\<close> goes on to
  its assertions; otherwise \<open>get_config\<close> raises an AssertionError whose message has
  one line \<open>Unknown option in config file: k\<close> for each unknown key \<open>k\<close> and no other
  line.
\<close>

theorem get_config_rejects_unknown_keys:
  assumes "parse_args argv = Inr args"
    and "map_of (rev argv) ''config'' = Some (PStr p)" and "p \<noteq> []"
    and "fs p = Some (JsonObject config_from_file)"
  shows "(set (map fst config_from_file) \<subseteq> set option_names \<longrightarrow>
            read_config_file fs args = Inr (dict_update args config_from_file))
       \<and> (\<not> set (map fst config_from_file) \<subseteq> set option_names \<longrightarrow>
            (\<exists>unknown. unknown \<noteq> [] \<and> distinct unknown \<and>
               set unknown = set (map fst config_from_file) - set option_names \<and>
               get_config C fs argv =
                 Inl (AssertionError (Text (join_lines
                   (map (\<lambda>opt. ''Unknown option in config file: '' @ opt) unknown))))))"
proof -
  let ?u = "unknown_options config_from_file args"
  have u_set: "set ?u = set (map fst config_from_file) - set option_names"
    by (rule unknown_options_parse_args [OF assms(1)])
  have rd: "read_config_file fs args =
      (if ?u \<noteq> [] then Inl (AssertionError (Text (unknown_error ?u)))
       else Inr (dict_update args config_from_file))"
    using assms by (rule read_config_file_object)
  show ?thesis
  proof (intro conjI impI)
    assume "set (map fst config_from_file) \<subseteq> set option_names"
    then have "set ?u = {}" using u_set by auto
    then show "read_config_file fs args = Inr (dict_update args config_from_file)"
      using rd by simp
  next
    assume "\<not> set (map fst config_from_file) \<subseteq> set option_names"
    then have ne: "?u \<noteq> []" using u_set by auto
    have "get_config C fs argv = Inl (AssertionError (Text (unknown_error ?u)))"
      unfolding get_config_def using assms(1) rd ne by simp
    then show "\<exists>unknown. unknown \<noteq> [] \<and> distinct unknown \<and>
               set unknown = set (map fst config_from_file) - set option_names \<and>
               get_config C fs argv =
                 Inl (AssertionError (Text (join_lines
                   (map (\<lambda>opt. ''Unknown option in config file: '' @ opt) unknown))))"
      using ne u_set unknown_options_distinct [of config_from_file args]
      unfolding unknown_error_def by blast
  qed
qed


text \<open>
  The command line names the optimizer \<open>sgd\<close>, which is not a key of \<open>OPTIMIZERS\<close>:
  \<open>get_config\<close> raises (C3).
\<close>

theorem get_config_rejects_unknown_names_witness:
  "parse_args [(''config'', PStr ''run.json''), (''optimizer'', PStr ''sgd'')]
     = Inr (dict_update defaults [(''config'', PStr ''run.json''), (''optimizer'', PStr ''sgd'')])
   \<and> read_config_file demo_fs
         (dict_update defaults [(''config'', PStr ''run.json''), (''optimizer'', PStr ''sgd'')])
       = Inr (dict_update defaults [(''config'', PStr ''run.json''), (''optimizer'', PStr ''sgd''),
                                    (''epochs'', PInt 3), (''model'', PStr ''gru'')])
   \<and> check_bounds (dict_update defaults [(''config'', PStr ''run.json''), (''optimizer'', PStr ''sgd''),
                                    (''epochs'', PInt 3), (''model'', PStr ''gru'')]) = Inr ()
   \<and> isl (get_config demo_constants demo_fs
             [(''config'', PStr ''run.json''), (''optimizer'', PStr ''sgd'')])
   \<and> map_of (dict_update defaults [(''config'', PStr ''run.json''), (''optimizer'', PStr ''sgd''),
                                    (''epochs'', PInt 3), (''model'', PStr ''gru'')]) ''optimizer''
       = Some (PStr ''sgd'')
   \<and> ''sgd'' \<notin> set (OPTIMIZERS demo_constants)"
proof -
  let ?argv = "[(''config'', PStr ''run.json''), (''optimizer'', PStr ''sgd'')]"
  let ?args = "dict_update defaults ?argv"
  let ?config = "dict_update defaults [(''config'', PStr ''run.json''), (''optimizer'', PStr ''sgd''),
                                    (''epochs'', PInt 3), (''model'', PStr ''gru'')]"
  have h1: "parse_args ?argv = Inr ?args" by (simp add: demo_defs)
  have h2: "read_config_file demo_fs ?args = Inr ?config" by (simp add: demo_defs)
  have h3: "check_bounds ?config = Inr ()" by (simp add: demo_defs)
  have h4: "map_of ?config ''optimizer'' = Some (PStr ''sgd'')" by (simp add: demo_defs)
  have h5: "''sgd'' \<notin> set (OPTIMIZERS demo_constants)" by (simp add: demo_defs)
  have "isl (get_config demo_constants demo_fs ?argv)"
    using get_config_rejects_unknown_names [OF h1 h2 h3, of demo_constants] h4 h5 by auto
  then show ?thesis using h1 h2 h3 h4 h5 by simp
qed

text \<open>
  A file with known keys is merged; a file with the key \<open>epoch\<close> is refused with a
  message that names it (C4).
\<close>

theorem get_config_rejects_unknown_keys_witness:
  "parse_args [(''config'', PStr ''run.json'')] = Inr (dict_update defaults [(''config'', PStr ''run.json'')])
   \<and> map_of (rev [(''config'', PStr ''run.json'')]) ''config'' = Some (PStr ''run.json'')
   \<and> demo_fs ''run.json'' = Some (JsonObject [(''epochs'', PInt 3), (''model'', PStr ''gru'')])
   \<and> set (map fst [(''epochs'', PInt 3), (''model'', PStr ''gru'')]) \<subseteq> set option_names
   \<and> read_config_file demo_fs (dict_update defaults [(''config'', PStr ''run.json'')])
       = Inr (dict_update (dict_update defaults [(''config'', PStr ''run.json'')])
                [(''epochs'', PInt 3), (''model'', PStr ''gru'')])
   \<and> parse_args [(''config'', PStr ''typo.json'')] = Inr (dict_update defaults [(''config'', PStr ''typo.json'')])
   \<and> demo_fs ''typo.json'' = Some (JsonObject [(''epoch'', PInt 3), (''model'', PStr ''gru'')])
   \<and> set (map fst [(''epoch'', PInt 3), (''model'', PStr ''gru'')]) - set option_names = {''epoch''}
   \<and> get_config demo_constants demo_fs [(''config'', PStr ''typo.json'')]
       = Inl (AssertionError (Text ''Unknown option in config file: epoch''))"
proof -
  have a1: "parse_args [(''config'', PStr ''run.json'')] = Inr (dict_update defaults [(''config'', PStr ''run.json'')])"
    by (simp add: demo_defs)
  have a2: "map_of (rev [(''config'', PStr ''run.json'')]) ''config'' = Some (PStr ''run.json'')" by simp
  have a3: "''run.json'' \<noteq> []" by simp
  have a4: "demo_fs ''run.json'' = Some (JsonObject [(''epochs'', PInt 3), (''model'', PStr ''gru'')])"
    by (simp add: demo_fs_def)
  have a5: "set (map fst [(''epochs'', PInt 3), (''model'', PStr ''gru'')]) \<subseteq> set option_names"
    by (simp add: demo_defs)
  have b1: "parse_args [(''config'', PStr ''typo.json'')] = Inr (dict_update defaults [(''config'', PStr ''typo.json'')])"
    by (simp add: demo_defs)
  have b2: "map_of (rev [(''config'', PStr ''typo.json'')]) ''config'' = Some (PStr ''typo.json'')" by simp
  have b3: "''typo.json'' \<noteq> []" by simp
  have b4: "demo_fs ''typo.json'' = Some (JsonObject [(''epoch'', PInt 3), (''model'', PStr ''gru'')])"
    by (simp add: demo_fs_def)
  have b5: "set (map fst [(''epoch'', PInt 3), (''model'', PStr ''gru'')]) - set option_names = {''epoch''}"
    by (auto simp: demo_defs)
  have b6: "get_config demo_constants demo_fs [(''config'', PStr ''typo.json'')]
       = Inl (AssertionError (Text ''Unknown option in config file: epoch''))"
    by (simp add: demo_defs)
  show ?thesis
    using get_config_rejects_unknown_keys [where fs = demo_fs and C = demo_constants, OF a1 a2 a3 a4]
      get_config_rejects_unknown_keys [where fs = demo_fs and C = demo_constants, OF b1 b2 b3 b4]
      a1 a2 a4 a5 b1 b4 b5 b6
    by simp
qed

text \<open>
  Claim C5. On the merged configuration, \<open>init_points <= 0\<close> makes \<open>get_config\<close>
  raise, \<open>plot_pred > batch_size\<close> makes it raise, and with \<open>init_points > 0\<close> and
  \<open>plot_pred <= batch_size\<close> the two bound checks pass.
\<close>

theorem get_config_rejects_invalid_bounds:
  assumes "parse_args argv = Inr args"
    and "read_config_file fs args = Inr config"
    and "map_of config ''init_points'' = Some init_points"
    and "map_of config ''plot_pred'' = Some plot_pred"
    and "map_of config ''batch_size'' = Some batch_size"
  shows "(py_le init_points (PInt 0) = Inr True \<longrightarrow>
            isl (check_bounds config) \<and> isl (get_config C fs argv))
       \<and> (py_gt plot_pred batch_size = Inr True \<longrightarrow>
            isl (check_bounds config) \<and> isl (get_config C fs argv))
       \<and> (py_gt init_points (PInt 0) = Inr True \<and> py_le plot_pred batch_size = Inr True \<longrightarrow>
            check_bounds config = Inr ())"
proof -
  have err: "isl (get_config C fs argv)" if "isl (check_bounds config)"
    using that assms(1,2) by (auto simp: isl_iff_not_Inr get_config_Inr_iff)
  have ok: "check_bounds config = Inr () \<longleftrightarrow>
      py_gt init_points (PInt 0) = Inr True \<and> py_le plot_pred batch_size = Inr True"
    unfolding check_bounds_Inr_iff using assms(3,4,5) by simp
  have "isl (check_bounds config)" if "py_le init_points (PInt 0) = Inr True"
    using py_le_not_gt [OF that] ok by (auto simp: isl_iff_not_Inr)
  moreover have "isl (check_bounds config)" if "py_gt plot_pred batch_size = Inr True"
    using py_gt_not_le [OF that] ok by (auto simp: isl_iff_not_Inr)
  ultimately show ?thesis using err ok by blast
qed

text \<open>
  A file with \<open>init_points = 0\<close> and \<open>plot_pred = 64\<close> is refused; the defaults pass the
  two bounds (C5).
\<close>

theorem get_config_rejects_invalid_bounds_witness:
  "parse_args [(''config'', PStr ''bounds.json'')]
     = Inr (dict_update defaults [(''config'', PStr ''bounds.json'')])
   \<and> read_config_file demo_fs (dict_update defaults [(''config'', PStr ''bounds.json'')])
       = Inr (dict_update defaults [(''config'', PStr ''bounds.json''),
                                    (''init_points'', PInt 0), (''plot_pred'', PInt 64)])
   \<and> map_of (dict_update defaults [(''config'', PStr ''bounds.json''),
                 (''init_points'', PInt 0), (''plot_pred'', PInt 64)]) ''init_points'' = Some (PInt 0)
   \<and> map_of (dict_update defaults [(''config'', PStr ''bounds.json''),
                 (''init_points'', PInt 0), (''plot_pred'', PInt 64)]) ''plot_pred'' = Some (PInt 64)
   \<and> map_of (dict_update defaults [(''config'', PStr ''bounds.json''),
                 (''init_points'', PInt 0), (''plot_pred'', PInt 64)]) ''batch_size'' = Some (PInt 32)
   \<and> py_le (PInt 0) (PInt 0) = Inr True
   \<and> py_gt (PInt 64) (PInt 32) = Inr True
   \<and> isl (get_config demo_constants demo_fs [(''config'', PStr ''bounds.json'')])
   \<and> parse_args [] = Inr defaults
   \<and> read_config_file demo_fs defaults = Inr defaults
   \<and> map_of defaults ''init_points'' = Some (PInt 5)
   \<and> map_of defaults ''plot_pred'' = Some (PInt 3)
   \<and> map_of defaults ''batch_size'' = Some (PInt 32)
   \<and> py_gt (PInt 5) (PInt 0) = Inr True
   \<and> py_le (PInt 3) (PInt 32) = Inr True
   \<and> check_bounds defaults = Inr ()"
proof -
  let ?args = "dict_update defaults [(''config'', PStr ''bounds.json'')]"
  let ?config = "dict_update defaults [(''config'', PStr ''bounds.json''),
                                    (''init_points'', PInt 0), (''plot_pred'', PInt 64)]"
  have a1: "parse_args [(''config'', PStr ''bounds.json'')] = Inr ?args" by (simp add: demo_defs)
  have a2: "read_config_file demo_fs ?args = Inr ?config" by (simp add: demo_defs)
  have a3: "map_of ?config ''init_points'' = Some (PInt 0)" by (simp add: demo_defs)
  have a4: "map_of ?config ''plot_pred'' = Some (PInt 64)" by (simp add: demo_defs)
  have a5: "map_of ?config ''batch_size'' = Some (PInt 32)" by (simp add: demo_defs)
  have b1: "parse_args [] = Inr defaults" by (simp add: demo_defs)
  have b2: "read_config_file demo_fs defaults = Inr defaults" by (simp add: demo_defs)
  have b3: "map_of defaults ''init_points'' = Some (PInt 5)" by (simp add: demo_defs)
  have b4: "map_of defaults ''plot_pred'' = Some (PInt 3)" by (simp add: demo_defs)
  have b5: "map_of defaults ''batch_size'' = Some (PInt 32)" by (simp add: demo_defs)
  show ?thesis
    using get_config_rejects_invalid_bounds [OF a1 a2 a3 a4 a5, of demo_constants]
      get_config_rejects_invalid_bounds [OF b1 b2 b3 b4 b5, of demo_constants]
      a1 a2 a3 a4 a5 b1 b2 b3 b4 b5
    by simp
qed

text \<open>
  Claim C6. With a configuration file whose keys are all option names, the configuration
  \<open>get_config\<close> returns holds, for every key of the file, the value of the file (the
  last one when the text repeats the key), whatever the command line gave, and for every
  other key the value of the command line or, without one, the default.
\<close>

theorem config_file_overrides_command_line:
  assumes "parse_args argv = Inr args"
    and "map_of (rev argv) ''config'' = Some (PStr p)" and "p \<noteq> []"
    and "fs p = Some (JsonObject config_from_file)"
    and "set (map fst config_from_file) \<subseteq> set option_names"
    and "get_config C fs argv = Inr config"
  shows "(\<forall>k v. map_of (rev config_from_file) k = Some v \<longrightarrow> map_of config k = Some v)
       \<and> (\<forall>k. k \<notin> set (map fst config_from_file) \<longrightarrow>
            map_of config k =
              (case map_of arguments k of
                 None \<Rightarrow> None
               | Some (t, d) \<Rightarrow> Some (case map_of (rev argv) k of None \<Rightarrow> d | Some v \<Rightarrow> v)))
       \<and> map fst config = option_names"
proof -
  have "set (unknown_options config_from_file args) = {}"
    using unknown_options_parse_args [OF assms(1), of config_from_file] assms(5) by auto
  then have "read_config_file fs args = Inr (dict_update args config_from_file)"
    using read_config_file_object [where fs = fs, OF assms(1-4)] by simp
  then have cfg: "config = dict_update args config_from_file"
    using assms(1,6) by (auto simp: get_config_Inr_iff)
  have absent: "map_of (rev config_from_file) k = None" if "k \<notin> set (map fst config_from_file)" for k
    using that by (simp add: map_of_eq_None_iff)
  have keys: "map fst config = option_names"
    unfolding cfg using assms(1,5) by (simp add: keys_dict_update parse_args_keys)
  show ?thesis
    using absent keys
    by (simp add: cfg map_of_dict_update parse_args_lookup [OF assms(1)])
qed


text \<open>
  \<open>--epochs 50 --seed 7\<close> with a file that sets \<open>epochs\<close> to 3: the file wins for
  \<open>epochs\<close>, the command line for \<open>seed\<close>, the default for \<open>patience\<close> (C6).
\<close>

theorem config_file_overrides_command_line_witness:
  "parse_args [(''config'', PStr ''run.json''), (''epochs'', PInt 50), (''seed'', PInt 7)]
     = Inr (dict_update defaults [(''config'', PStr ''run.json''), (''epochs'', PInt 50), (''seed'', PInt 7)])
   \<and> map_of (rev [(''config'', PStr ''run.json''), (''epochs'', PInt 50), (''seed'', PInt 7)]) ''config''
       = Some (PStr ''run.json'')
   \<and> demo_fs ''run.json'' = Some (JsonObject [(''epochs'', PInt 3), (''model'', PStr ''gru'')])
   \<and> set (map fst [(''epochs'', PInt 3), (''model'', PStr ''gru'')]) \<subseteq> set option_names
   \<and> get_config demo_constants demo_fs
         [(''config'', PStr ''run.json''), (''epochs'', PInt 50), (''seed'', PInt 7)]
       = Inr (dict_update defaults [(''config'', PStr ''run.json''), (''seed'', PInt 7),
                                    (''epochs'', PInt 3), (''model'', PStr ''gru'')])
   \<and> map_of (dict_update defaults [(''config'', PStr ''run.json''), (''seed'', PInt 7),
                                    (''epochs'', PInt 3), (''model'', PStr ''gru'')]) ''epochs''
       = Some (PInt 3)
   \<and> map_of (dict_update defaults [(''config'', PStr ''run.json''), (''seed'', PInt 7),
                                    (''epochs'', PInt 3), (''model'', PStr ''gru'')]) ''seed''
       = Some (PInt 7)
   \<and> map_of (dict_update defaults [(''config'', PStr ''run.json''), (''seed'', PInt 7),
                                    (''epochs'', PInt 3), (''model'', PStr ''gru'')]) ''patience''
       = Some (PInt 10)"
proof -
  let ?argv = "[(''config'', PStr ''run.json''), (''epochs'', PInt 50), (''seed'', PInt 7)]"
  let ?config = "dict_update defaults [(''config'', PStr ''run.json''), (''seed'', PInt 7),
                                    (''epochs'', PInt 3), (''model'', PStr ''gru'')]"
  have a1: "parse_args ?argv = Inr (dict_update defaults ?argv)" by (simp add: demo_defs)
  have a2: "map_of (rev ?argv) ''config'' = Some (PStr ''run.json'')" by simp
  have a3: "''run.json'' \<noteq> []" by simp
  have a4: "demo_fs ''run.json'' = Some (JsonObject [(''epochs'', PInt 3), (''model'', PStr ''gru'')])"
    by (simp add: demo_fs_def)
  have a5: "set (map fst [(''epochs'', PInt 3), (''model'', PStr ''gru'')]) \<subseteq> set option_names"
    by (simp add: demo_defs)
  have a6: "get_config demo_constants demo_fs ?argv = Inr ?config" by (simp add: demo_defs)
  have "map_of ?config ''epochs'' = Some (PInt 3) \<and> map_of ?config ''seed'' = Some (PInt 7)
      \<and> map_of ?config ''patience'' = Some (PInt 10)"
    using config_file_overrides_command_line
            [where fs = demo_fs and C = demo_constants, OF a1 a2 a3 a4 a5 a6]
    by (simp add: arguments_def)
  then show ?thesis using a1 a2 a4 a5 a6 by simp
qed

text \<open>
  Claim C9. Every configuration that \<open>get_config\<close> returns satisfies the six
  assertions: the model, the optimizer, the loss and the GNN type are known names,
  \<open>init_points > 0\<close> and \<open>plot_pred <= batch_size\<close>.
\<close>

theorem get_config_result_is_valid:
  assumes "get_config C fs argv = Inr config"
  shows "\<exists>model optimizer loss gnn_type init_points plot_pred batch_size.
           map_of config ''model'' = Some (PStr model)
         \<and> model \<in> {''gru'', ''gru_node'', ''gru_graph''}
         \<and> map_of config ''optimizer'' = Some (PStr optimizer) \<and> optimizer \<in> set (OPTIMIZERS C)
         \<and> map_of config ''loss'' = Some (PStr loss) \<and> loss \<in> set (LOSSES C)
         \<and> map_of config ''gnn_type'' = Some (PStr gnn_type) \<and> gnn_type \<in> set (GNN_LAYERS C)
         \<and> map_of config ''init_points'' = Some init_points
         \<and> py_gt init_points (PInt 0) = Inr True
         \<and> map_of config ''plot_pred'' = Some plot_pred
         \<and> map_of config ''batch_size'' = Some batch_size
         \<and> py_le plot_pred batch_size = Inr True"
proof -
  from assms have names: "check_names C config = Inr ()" and bounds: "check_bounds config = Inr ()"
    by (auto simp: get_config_Inr_iff)
  from names obtain m opt l g where
    "map_of config ''model'' = Some (PStr m)" "m \<in> set (map fst MODELS)"
    "map_of config ''optimizer'' = Some (PStr opt)" "opt \<in> set (OPTIMIZERS C)"
    "map_of config ''loss'' = Some (PStr l)" "l \<in> set (LOSSES C)"
    "map_of config ''gnn_type'' = Some (PStr g)" "g \<in> set (GNN_LAYERS C)"
    unfolding check_names_Inr_iff by blast
  moreover from bounds obtain ip pp bs where
    "map_of config ''init_points'' = Some ip" "py_gt ip (PInt 0) = Inr True"
    "map_of config ''plot_pred'' = Some pp" "map_of config ''batch_size'' = Some bs"
    "py_le pp bs = Inr True"
    unfolding check_bounds_Inr_iff by blast
  ultimately show ?thesis by (simp add: MODELS_def)
qed

text \<open>A configuration that is returned, and its values under the six assertions (C9).\<close>

theorem get_config_result_is_valid_witness:
  "get_config demo_constants demo_fs [(''config'', PStr ''run.json''), (''plot_pred'', PInt 8)]
     = Inr (dict_update defaults [(''config'', PStr ''run.json''), (''plot_pred'', PInt 8),
                                  (''epochs'', PInt 3), (''model'', PStr ''gru'')])
   \<and> map_of (dict_update defaults [(''config'', PStr ''run.json''), (''plot_pred'', PInt 8),
                                  (''epochs'', PInt 3), (''model'', PStr ''gru'')]) ''model''
       = Some (PStr ''gru'')
   \<and> map_of (dict_update defaults [(''config'', PStr ''run.json''), (''plot_pred'', PInt 8),
                                  (''epochs'', PInt 3), (''model'', PStr ''gru'')]) ''init_points''
       = Some (PInt 5)
   \<and> py_gt (PInt 5) (PInt 0) = Inr True
   \<and> map_of (dict_update defaults [(''config'', PStr ''run.json''), (''plot_pred'', PInt 8),
                                  (''epochs'', PInt 3), (''model'', PStr ''gru'')]) ''plot_pred''
       = Some (PInt 8)
   \<and> map_of (dict_update defaults [(''config'', PStr ''run.json''), (''plot_pred'', PInt 8),
                                  (''epochs'', PInt 3), (''model'', PStr ''gru'')]) ''batch_size''
       = Some (PInt 32)
   \<and> py_le (PInt 8) (PInt 32) = Inr True"
proof -
  have a: "get_config demo_constants demo_fs [(''config'', PStr ''run.json''), (''plot_pred'', PInt 8)]
     = Inr (dict_update defaults [(''config'', PStr ''run.json''), (''plot_pred'', PInt 8),
                                  (''epochs'', PInt 3), (''model'', PStr ''gru'')])"
    by (simp add: demo_defs)
  show ?thesis
    using get_config_result_is_valid [OF a] by (simp add: a demo_defs)
qed

section \<open>Properties of the training loop and of main\<close>

subsection \<open>Floats\<close>





subsection \<open>Histories\<close>











subsection \<open>Runs\<close>

lemma seq_ret [simp]: "seq (ret a) f = f a"
  by (simp add: seq_def ret_def split: prod.splits)

lemma seq_lift_Inr [simp]: "seq (lift (Inr a)) f = f a"
  by (simp add: seq_def lift_def split: prod.splits)

lemma seq_lift_Inl [simp]: "seq (lift (Inl e)) f = ([], Inl e)"
  by (simp add: seq_def lift_def)

lemma seq_emit [simp]: "seq (emit evs) f = (evs @ fst (f ()), snd (f ()))"
  by (simp add: seq_def emit_def split: prod.splits)

lemma seq_Inl [simp]: "seq (evs, Inl e) f = (evs, Inl e)"
  by (simp add: seq_def)




lemma lift_eq [simp]: "lift x = (evs, r) \<longleftrightarrow> evs = [] \<and> r = x"
  by (auto simp: lift_def)

lemma ret_eq [simp]: "ret a = (evs, r) \<longleftrightarrow> evs = [] \<and> r = Inr a"
  by (auto simp: ret_def)

lemma logged_append [simp]: "logged (xs @ ys) = logged xs @ logged ys"
  by (induction xs rule: logged.induct) (auto split: option.splits)









lemma logged_step:
  "map_of lm ''val_mse'' = Some val \<Longrightarrow>
   logged ([PrintEpoch e loss val, WandbLog e lm] @ (if stop then [PrintStop] else [])) = [(e, val)]"
  by simp






subsection \<open>The events of main\<close>



lemma fst_lift [simp]: "fst (lift x) = []"
  by (simp add: lift_def)

lemma fst_ret [simp]: "fst (ret a) = []"
  by (simp add: ret_def)

lemma fst_emit [simp]: "fst (emit evs) = evs"
  by (simp add: emit_def)




































end
